theory Spec2Isabelle
  imports Main "HOL-Library.Word"
begin

section \<open>The IKEv2 SA payload of charon (encoding/payloads/sa\_payload.c)\<close>

text \<open>
  A shallow embedding of \<^verbatim>\<open>sa_payload.c\<close>. The linked list of proposals is a HOL list
  in wire order, an iterator loop is a recursion over that list, a mutation of
  \<^verbatim>\<open>this\<close> returns the updated record, and the two output parameters of
  \<^verbatim>\<open>get_ike_proposals\<close> are passed in and returned, so that "unwritten" is
  "returned as passed in". Ownership is exclusive (a proposal belongs to one payload,
  a transform to one proposal), hence objects are values and not addresses.
\<close>

subsection \<open>Outcomes and enumerations\<close>

text \<open>
  Modelled from the spec: the enumerations \<^verbatim>\<open>status_t\<close>, \<^verbatim>\<open>payload_type_t\<close>,
  \<^verbatim>\<open>protocol_id_t\<close> and \<^verbatim>\<open>transform_type_t\<close> are declared in headers that are
  not part of the sources. Only the members that \<^verbatim>\<open>sa_payload.c\<close> names are
  listed, with one further member standing for every value the code treats by
  default.
\<close>

datatype status_t = SUCCESS | FAILED | NOT_FOUND

datatype payload_type_t = NO_PAYLOAD | SECURITY_ASSOCIATION | OTHER_PAYLOAD_TYPE nat

datatype protocol_id_t = UNDEFINED_PROTOCOL_ID | IKE | AH | ESP

datatype transform_type_t =
    ENCRYPTION_ALGORITHM
  | PSEUDO_RANDOM_FUNCTION
  | INTEGRITY_ALGORITHM
  | DIFFIE_HELLMAN_GROUP
  | EXTENDED_SEQUENCE_NUMBERS

subsection \<open>Transform substructure\<close>

text \<open>
  Modelled from the spec: \<^verbatim>\<open>transform_substructure_t\<close> and its functions live in
  transform\_substructure.c, which is not part of the sources. Section 3 of the
  specification: a transform has a type, an id, an optional key-length attribute
  (present or absent, with a value) and a last-transform flag. The widths of the id
  and of the key length are not declared in the sources; they are natural numbers
  here.
\<close>

record transform_substructure_t =
  transform_type :: transform_type_t
  transform_id :: nat
  key_length :: "nat option"
  is_last_transform :: bool

definition get_transform_type :: "transform_substructure_t \<Rightarrow> transform_type_t" where
  "get_transform_type t = transform_type t"

definition get_transform_id :: "transform_substructure_t \<Rightarrow> nat" where
  "get_transform_id t = transform_id t"

text \<open>
  Modelled from the spec: \<^verbatim>\<open>get_key_length(this, &key_length)\<close> reports whether the
  key-length attribute is present. The second argument is the old content of the
  output location, the second result its new content: it is written only on
  success.
\<close>

definition get_key_length :: "transform_substructure_t \<Rightarrow> nat \<Rightarrow> status_t \<times> nat" where
  "get_key_length t old =
     (case key_length t of
        None \<Rightarrow> (FAILED, old)
      | Some k \<Rightarrow> (SUCCESS, k))"

definition set_is_last_transform :: "transform_substructure_t \<Rightarrow> bool \<Rightarrow> transform_substructure_t" where
  "set_is_last_transform t b = t\<lparr>is_last_transform := b\<rparr>"

text \<open>
  Modelled from the spec: \<^verbatim>\<open>transform_substructure_create_type(type, id, key_length)\<close>
  (section 4.2: construction from type, id and key length for the algorithms that
  are parameterised by a key length, from type and id with no key length
  otherwise). The key-length-parameterised types are the three whose key length
  \<^verbatim>\<open>get_ike_proposals\<close> queries.
\<close>

definition transform_substructure_create_type ::
  "transform_type_t \<Rightarrow> nat \<Rightarrow> nat \<Rightarrow> transform_substructure_t" where
  "transform_substructure_create_type ty ident klen =
     \<lparr> transform_type = ty,
       transform_id = ident,
       key_length =
         (case ty of
            ENCRYPTION_ALGORITHM \<Rightarrow> Some klen
          | PSEUDO_RANDOM_FUNCTION \<Rightarrow> Some klen
          | INTEGRITY_ALGORITHM \<Rightarrow> Some klen
          | DIFFIE_HELLMAN_GROUP \<Rightarrow> None
          | EXTENDED_SEQUENCE_NUMBERS \<Rightarrow> None),
       is_last_transform = True \<rparr>"

subsection \<open>Proposal substructure\<close>

text \<open>
  Modelled from the spec: \<^verbatim>\<open>proposal_substructure_t\<close> and its functions live in
  proposal\_substructure.c, which is not part of the sources. Section 3: a proposal
  has a number (a positive integer; its width is not declared in the sources, and
  \<^verbatim>\<open>verify\<close> compares it as an \<^verbatim>\<open>int\<close>), a protocol id, an SPI (a byte string),
  the ordered sequence of its transforms and a last-proposal flag.
\<close>

record proposal_substructure_t =
  p_number :: int
  p_protocol_id :: protocol_id_t
  p_spi :: "8 word list"
  p_transforms :: "transform_substructure_t list"
  p_is_last_proposal :: bool

definition get_proposal_number :: "proposal_substructure_t \<Rightarrow> int" where
  "get_proposal_number p = p_number p"

definition set_proposal_number :: "proposal_substructure_t \<Rightarrow> int \<Rightarrow> proposal_substructure_t" where
  "set_proposal_number p n = p\<lparr>p_number := n\<rparr>"

definition get_protocol_id :: "proposal_substructure_t \<Rightarrow> protocol_id_t" where
  "get_protocol_id p = p_protocol_id p"

definition set_protocol_id :: "proposal_substructure_t \<Rightarrow> protocol_id_t \<Rightarrow> proposal_substructure_t" where
  "set_protocol_id p i = p\<lparr>p_protocol_id := i\<rparr>"

definition get_transform_count :: "proposal_substructure_t \<Rightarrow> nat" where
  "get_transform_count p = length (p_transforms p)"

definition get_spi_size :: "proposal_substructure_t \<Rightarrow> nat" where
  "get_spi_size p = length (p_spi p)"

text \<open>
  Modelled from the spec: \<^verbatim>\<open>create_transform_substructure_iterator(this, TRUE)\<close>
  traverses the transforms in their order; the traversal is the list itself.
\<close>

definition create_transform_substructure_iterator ::
  "proposal_substructure_t \<Rightarrow> transform_substructure_t list" where
  "create_transform_substructure_iterator p = p_transforms p"

definition set_is_last_proposal :: "proposal_substructure_t \<Rightarrow> bool \<Rightarrow> proposal_substructure_t" where
  "set_is_last_proposal p b = p\<lparr>p_is_last_proposal := b\<rparr>"

definition get_is_last_proposal :: "proposal_substructure_t \<Rightarrow> bool" where
  "get_is_last_proposal p = p_is_last_proposal p"

text \<open>
  Modelled from the spec: \<^verbatim>\<open>proposal_substructure_create()\<close> gives a proposal with no
  transforms and an empty SPI. Its number and protocol id are set by the caller
  before use.
\<close>

definition proposal_substructure_create :: proposal_substructure_t where
  "proposal_substructure_create =
     \<lparr> p_number = 0,
       p_protocol_id = UNDEFINED_PROTOCOL_ID,
       p_spi = [],
       p_transforms = [],
       p_is_last_proposal = True \<rparr>"

text \<open>
  Modelled from the spec: \<^verbatim>\<open>add_transform_substructure\<close> (section 4.3) clears the
  last flag of the previous tail, if any, sets it on the new transform and appends
  the new transform.
\<close>

definition add_transform_substructure ::
  "proposal_substructure_t \<Rightarrow> transform_substructure_t \<Rightarrow> proposal_substructure_t" where
  "add_transform_substructure p t =
     p\<lparr>p_transforms :=
         (if length (p_transforms p) > 0
          then butlast (p_transforms p) @ [set_is_last_transform (last (p_transforms p)) False]
          else p_transforms p)
         @ [set_is_last_transform t True]\<rparr>"

subsection \<open>IKE proposal record\<close>

text \<open>
  Modelled from the spec: \<^verbatim>\<open>ike_proposal_t\<close> is declared in sa\_payload.h, which is
  not part of the sources. The field names are those \<^verbatim>\<open>sa_payload.c\<close> uses.
\<close>

record ike_proposal_t =
  encryption_algorithm :: nat
  encryption_algorithm_key_length :: nat
  integrity_algorithm :: nat
  integrity_algorithm_key_length :: nat
  pseudo_random_function :: nat
  pseudo_random_function_key_length :: nat
  diffie_hellman_group :: nat

subsection \<open>The SA payload\<close>

text \<open>
  \<^verbatim>\<open>struct private_sa_payload_t\<close>: the function pointers of the public interface
  are left out, each function below takes \<^verbatim>\<open>this\<close> as an argument.
\<close>

record private_sa_payload_t =
  next_payload :: payload_type_t
  critical :: bool
  payload_length :: "16 word"
  proposals :: "proposal_substructure_t list"

text \<open>
  Modelled from the spec: the macros \<^verbatim>\<open>SA_PAYLOAD_HEADER_LENGTH\<close> and
  \<^verbatim>\<open>SA_PAYLOAD_CRITICAL_FLAG\<close> are defined in sa\_payload.h, which is not part of the
  sources. Section 6: the header is 4 bytes long. Section 3 and the glossary: the
  critical flag must be unset for the payload to be accepted.
\<close>

definition SA_PAYLOAD_HEADER_LENGTH :: nat where
  "SA_PAYLOAD_HEADER_LENGTH = 4"

definition SA_PAYLOAD_CRITICAL_FLAG :: bool where
  "SA_PAYLOAD_CRITICAL_FLAG = False"

text \<open>
  \<^verbatim>\<open>verify\<close>, lines 115 to 169. The loop over the proposals is \<open>verify_loop\<close>; its
  arguments are the local variables \<^verbatim>\<open>proposal_number\<close>, \<^verbatim>\<open>first\<close> and \<^verbatim>\<open>status\<close>.
  The source never assigns \<^verbatim>\<open>proposal_number\<close> after its initialisation, so the
  recursive call passes it on unchanged. A proposal's own verify is reached through
  its function table; it is the parameter \<open>pverify\<close>. The creation and the
  destruction of the iterator (the latter twice on the path of line 153) are memory
  management and have no counterpart here.
\<close>

fun verify_loop ::
  "(proposal_substructure_t \<Rightarrow> status_t) \<Rightarrow> int \<Rightarrow> bool \<Rightarrow> status_t \<Rightarrow>
   proposal_substructure_t list \<Rightarrow> status_t" where
  "verify_loop pverify proposal_number first status [] = status"
| "verify_loop pverify proposal_number first status (current_proposal # rest) =
     (if get_proposal_number current_proposal > proposal_number
      then
        (if first then FAILED
         else if get_proposal_number current_proposal \<noteq> proposal_number + 1 then FAILED
         else
           (if pverify current_proposal \<noteq> SUCCESS then pverify current_proposal
            else verify_loop pverify proposal_number False (pverify current_proposal) rest))
      else if get_proposal_number current_proposal < proposal_number then FAILED
      else
        (if pverify current_proposal \<noteq> SUCCESS then pverify current_proposal
         else verify_loop pverify proposal_number False (pverify current_proposal) rest))"

definition verify :: "(proposal_substructure_t \<Rightarrow> status_t) \<Rightarrow> private_sa_payload_t \<Rightarrow> status_t" where
  "verify pverify this =
     (if critical this then FAILED
      else verify_loop pverify 1 True SUCCESS (proposals this))"

text \<open>\<^verbatim>\<open>get_type\<close>, \<^verbatim>\<open>get_next_type\<close> and \<^verbatim>\<open>set_next_type\<close>, lines 203 to 222.\<close>

definition get_type :: "private_sa_payload_t \<Rightarrow> payload_type_t" where
  "get_type this = SECURITY_ASSOCIATION"

definition get_next_type :: "private_sa_payload_t \<Rightarrow> payload_type_t" where
  "get_next_type this = next_payload this"

definition set_next_type :: "private_sa_payload_t \<Rightarrow> payload_type_t \<Rightarrow> private_sa_payload_t" where
  "set_next_type this ty = this\<lparr>next_payload := ty\<rparr>"

text \<open>
  \<^verbatim>\<open>compute_length\<close>, lines 399 to 413. The local \<^verbatim>\<open>length\<close> is a \<^verbatim>\<open>size_t\<close>, the
  field it is stored into is a \<^verbatim>\<open>u_int16_t\<close>: the assignment keeps the low 16 bits.
  A proposal's encoded length is reached through its function table; it is the
  parameter \<open>plength\<close>.
\<close>

fun compute_length_loop ::
  "(proposal_substructure_t \<Rightarrow> nat) \<Rightarrow> nat \<Rightarrow> proposal_substructure_t list \<Rightarrow> nat" where
  "compute_length_loop plength len [] = len"
| "compute_length_loop plength len (current_proposal # rest) =
     compute_length_loop plength (len + plength current_proposal) rest"

definition compute_length ::
  "(proposal_substructure_t \<Rightarrow> nat) \<Rightarrow> private_sa_payload_t \<Rightarrow> private_sa_payload_t" where
  "compute_length plength this =
     this\<lparr>payload_length :=
       of_nat (compute_length_loop plength SA_PAYLOAD_HEADER_LENGTH (proposals this))\<rparr>"

text \<open>
  \<^verbatim>\<open>get_length\<close>, lines 227 to 231: the returned \<^verbatim>\<open>size_t\<close> and the payload after
  the recomputation.
\<close>

definition get_length ::
  "(proposal_substructure_t \<Rightarrow> nat) \<Rightarrow> private_sa_payload_t \<Rightarrow> nat \<times> private_sa_payload_t" where
  "get_length plength this =
     (let this' = compute_length plength this
      in (unat (payload_length this'), this'))"

text \<open>\<^verbatim>\<open>add_proposal_substructure\<close>, lines 244 to 258.\<close>

definition add_proposal_substructure ::
  "(proposal_substructure_t \<Rightarrow> nat) \<Rightarrow> private_sa_payload_t \<Rightarrow> proposal_substructure_t \<Rightarrow>
   private_sa_payload_t" where
  "add_proposal_substructure plength this proposal =
     (let this1 =
            (if length (proposals this) > 0
             then this\<lparr>proposals :=
                    butlast (proposals this) @ [set_is_last_proposal (last (proposals this)) False]\<rparr>
             else this);
          proposal1 = set_is_last_proposal proposal True;
          this2 = this1\<lparr>proposals := proposals this1 @ [proposal1]\<rparr>
      in compute_length plength this2)"

text \<open>
  \<^verbatim>\<open>get_ike_proposals\<close>, lines 263 to 394. The first loop is
  \<open>get_ike_proposals_count\<close>: \<open>None\<close> is its \<^verbatim>\<open>return FAILED\<close>, \<open>Some n\<close> the value
  of \<^verbatim>\<open>found_ike_proposals\<close> when the loop ends.
\<close>

fun get_ike_proposals_count :: "proposal_substructure_t list \<Rightarrow> nat \<Rightarrow> nat option" where
  "get_ike_proposals_count [] found_ike_proposals = Some found_ike_proposals"
| "get_ike_proposals_count (current_proposal # rest) found_ike_proposals =
     (if get_protocol_id current_proposal = IKE
      then
        (if get_transform_count current_proposal \<noteq> 4 \<or> get_spi_size current_proposal \<noteq> 0
         then None
         else get_ike_proposals_count rest (found_ike_proposals + 1))
      else get_ike_proposals_count rest found_ike_proposals)"

text \<open>The four local flags of the second loop.\<close>

record found_flags =
  encryption_algorithm_found :: bool
  integrity_algorithm_found :: bool
  pseudo_random_function_found :: bool
  diffie_hellman_group_found :: bool

definition no_flags :: found_flags where
  "no_flags =
     \<lparr> encryption_algorithm_found = False,
       integrity_algorithm_found = False,
       pseudo_random_function_found = False,
       diffie_hellman_group_found = False \<rparr>"

text \<open>
  The body of the loop over one proposal's transforms, lines 321 to 367: the
  \<^verbatim>\<open>switch\<close> on the transform type. The state is the array element
  \<^verbatim>\<open>tmp_proposals[current_proposal_number]\<close> and the four flags.
\<close>

definition get_ike_proposals_transform ::
  "ike_proposal_t \<times> found_flags \<Rightarrow> transform_substructure_t \<Rightarrow> ike_proposal_t \<times> found_flags" where
  "get_ike_proposals_transform st current_transform =
     (case get_transform_type current_transform of
        ENCRYPTION_ALGORITHM \<Rightarrow>
          (let slot = (fst st)\<lparr>encryption_algorithm := get_transform_id current_transform\<rparr>;
               r = get_key_length current_transform (encryption_algorithm_key_length slot)
           in (slot\<lparr>encryption_algorithm_key_length := snd r\<rparr>,
               if fst r = SUCCESS then (snd st)\<lparr>encryption_algorithm_found := True\<rparr> else snd st))
      | INTEGRITY_ALGORITHM \<Rightarrow>
          (let slot = (fst st)\<lparr>integrity_algorithm := get_transform_id current_transform\<rparr>;
               r = get_key_length current_transform (integrity_algorithm_key_length slot)
           in (slot\<lparr>integrity_algorithm_key_length := snd r\<rparr>,
               if fst r = SUCCESS then (snd st)\<lparr>integrity_algorithm_found := True\<rparr> else snd st))
      | PSEUDO_RANDOM_FUNCTION \<Rightarrow>
          (let slot = (fst st)\<lparr>pseudo_random_function := get_transform_id current_transform\<rparr>;
               r = get_key_length current_transform (pseudo_random_function_key_length slot)
           in (slot\<lparr>pseudo_random_function_key_length := snd r\<rparr>,
               if fst r = SUCCESS then (snd st)\<lparr>pseudo_random_function_found := True\<rparr> else snd st))
      | DIFFIE_HELLMAN_GROUP \<Rightarrow>
          ((fst st)\<lparr>diffie_hellman_group := get_transform_id current_transform\<rparr>,
           (snd st)\<lparr>diffie_hellman_group_found := True\<rparr>)
      | EXTENDED_SEQUENCE_NUMBERS \<Rightarrow> st)"

definition get_ike_proposals_transforms ::
  "transform_substructure_t list \<Rightarrow> ike_proposal_t \<Rightarrow> ike_proposal_t \<times> found_flags" where
  "get_ike_proposals_transforms ts slot = foldl get_ike_proposals_transform (slot, no_flags) ts"

definition all_found :: "found_flags \<Rightarrow> bool" where
  "all_found fl =
     (\<not> ((\<not> encryption_algorithm_found fl) \<or>
         (\<not> integrity_algorithm_found fl) \<or>
         (\<not> pseudo_random_function_found fl) \<or>
         (\<not> diffie_hellman_group_found fl)))"

text \<open>
  The second loop, lines 305 to 386, over the array \<^verbatim>\<open>tmp_proposals\<close> and the
  index \<^verbatim>\<open>current_proposal_number\<close>: \<open>None\<close> is its \<^verbatim>\<open>return FAILED\<close>, \<open>Some\<close> the
  array when the loop ends. The index counts the IKE proposals passed so far and
  the array has one element per IKE proposal of the list (lemma
  \<open>get_ike_proposals_count_Some\<close>), so every access is inside the array.
\<close>

fun get_ike_proposals_fill ::
  "proposal_substructure_t list \<Rightarrow> nat \<Rightarrow> ike_proposal_t list \<Rightarrow> ike_proposal_t list option" where
  "get_ike_proposals_fill [] current_proposal_number tmp_proposals = Some tmp_proposals"
| "get_ike_proposals_fill (current_proposal # rest) current_proposal_number tmp_proposals =
     (if get_protocol_id current_proposal = IKE
      then
        (if all_found
              (snd (get_ike_proposals_transforms (create_transform_substructure_iterator current_proposal)
                      (tmp_proposals ! current_proposal_number)))
         then get_ike_proposals_fill rest (current_proposal_number + 1)
                (tmp_proposals[current_proposal_number :=
                   fst (get_ike_proposals_transforms (create_transform_substructure_iterator current_proposal)
                          (tmp_proposals ! current_proposal_number))])
         else None)
      else get_ike_proposals_fill rest current_proposal_number tmp_proposals)"

text \<open>
  \<^verbatim>\<open>get_ike_proposals\<close> itself. \<open>alloc\<close> is the content of the memory that
  \<^verbatim>\<open>allocator_alloc\<close> returns, element by element (the source does not initialise
  it); \<open>out\<close> is the content of \<^verbatim>\<open>*proposals\<close> and \<^verbatim>\<open>*proposal_count\<close> before the
  call, the second component of the result their content after it.
\<close>

definition get_ike_proposals ::
  "(nat \<Rightarrow> ike_proposal_t) \<Rightarrow> private_sa_payload_t \<Rightarrow> ike_proposal_t list \<times> nat \<Rightarrow>
   status_t \<times> (ike_proposal_t list \<times> nat)" where
  "get_ike_proposals alloc this out =
     (case get_ike_proposals_count (proposals this) 0 of
        None \<Rightarrow> (FAILED, out)
      | Some found_ike_proposals \<Rightarrow>
          if found_ike_proposals = 0 then (NOT_FOUND, out)
          else
            (case get_ike_proposals_fill (proposals this) 0
                    (map alloc [0..<found_ike_proposals]) of
               None \<Rightarrow> (FAILED, out)
             | Some tmp_proposals \<Rightarrow> (SUCCESS, (tmp_proposals, found_ike_proposals))))"

text \<open>\<^verbatim>\<open>sa_payload_create\<close>, lines 418 to 447.\<close>

definition sa_payload_create :: private_sa_payload_t where
  "sa_payload_create =
     \<lparr> next_payload = NO_PAYLOAD,
       critical = SA_PAYLOAD_CRITICAL_FLAG,
       payload_length = of_nat SA_PAYLOAD_HEADER_LENGTH,
       proposals = [] \<rparr>"

text \<open>
  \<^verbatim>\<open>sa_payload_create_from_ike_proposals\<close>, lines 452 to 488. The body of the
  \<^verbatim>\<open>for\<close> loop builds one proposal from \<^verbatim>\<open>proposals[i]\<close>; the loop runs over the
  array with the counter \<^verbatim>\<open>i\<close>.
\<close>

definition create_proposal_substructure :: "nat \<Rightarrow> ike_proposal_t \<Rightarrow> proposal_substructure_t" where
  "create_proposal_substructure i r =
     (let proposal_substructure = proposal_substructure_create;
          proposal_substructure = set_protocol_id proposal_substructure IKE;
          proposal_substructure = set_proposal_number proposal_substructure (int i + 1);
          encryption_algorithm_transform =
            transform_substructure_create_type ENCRYPTION_ALGORITHM
              (encryption_algorithm r) (encryption_algorithm_key_length r);
          proposal_substructure =
            add_transform_substructure proposal_substructure encryption_algorithm_transform;
          pseudo_random_function_transform =
            transform_substructure_create_type PSEUDO_RANDOM_FUNCTION
              (pseudo_random_function r) (pseudo_random_function_key_length r);
          proposal_substructure =
            add_transform_substructure proposal_substructure pseudo_random_function_transform;
          integrity_algorithm_transform =
            transform_substructure_create_type INTEGRITY_ALGORITHM
              (integrity_algorithm r) (integrity_algorithm_key_length r);
          proposal_substructure =
            add_transform_substructure proposal_substructure integrity_algorithm_transform;
          diffie_hellman_group_transform =
            transform_substructure_create_type DIFFIE_HELLMAN_GROUP (diffie_hellman_group r) 0
      in add_transform_substructure proposal_substructure diffie_hellman_group_transform)"

fun create_from_ike_proposals_loop ::
  "(proposal_substructure_t \<Rightarrow> nat) \<Rightarrow> ike_proposal_t list \<Rightarrow> nat \<Rightarrow> private_sa_payload_t \<Rightarrow>
   private_sa_payload_t" where
  "create_from_ike_proposals_loop plength [] i sa_payload = sa_payload"
| "create_from_ike_proposals_loop plength (r # rest) i sa_payload =
     create_from_ike_proposals_loop plength rest (i + 1)
       (add_proposal_substructure plength sa_payload (create_proposal_substructure i r))"

definition sa_payload_create_from_ike_proposals ::
  "(proposal_substructure_t \<Rightarrow> nat) \<Rightarrow> ike_proposal_t list \<Rightarrow> private_sa_payload_t" where
  "sa_payload_create_from_ike_proposals plength records =
     create_from_ike_proposals_loop plength records 0 sa_payload_create"

text \<open>
  A run of \<^verbatim>\<open>add_proposal_substructure\<close> calls on one payload, in the order of the
  list.
\<close>

definition add_proposal_substructures ::
  "(proposal_substructure_t \<Rightarrow> nat) \<Rightarrow> private_sa_payload_t \<Rightarrow> proposal_substructure_t list \<Rightarrow>
   private_sa_payload_t" where
  "add_proposal_substructures plength this ps = foldl (add_proposal_substructure plength) this ps"

subsection \<open>Example values\<close>

text \<open>
  Concrete inputs at which the theorems below are instantiated. Two IKE proposal
  records; a content of freshly allocated memory; an encoded length of a proposal
  (8 bytes of header, the SPI, 8 bytes per transform and 4 more for a key-length
  attribute).
\<close>

definition example_record :: ike_proposal_t where
  "example_record =
     \<lparr> encryption_algorithm = 12,
       encryption_algorithm_key_length = 128,
       integrity_algorithm = 2,
       integrity_algorithm_key_length = 160,
       pseudo_random_function = 2,
       pseudo_random_function_key_length = 20,
       diffie_hellman_group = 14 \<rparr>"

definition example_record2 :: ike_proposal_t where
  "example_record2 =
     \<lparr> encryption_algorithm = 3,
       encryption_algorithm_key_length = 192,
       integrity_algorithm = 1,
       integrity_algorithm_key_length = 128,
       pseudo_random_function = 1,
       pseudo_random_function_key_length = 16,
       diffie_hellman_group = 2 \<rparr>"

definition example_alloc :: "nat \<Rightarrow> ike_proposal_t" where
  "example_alloc i =
     \<lparr> encryption_algorithm = 0,
       encryption_algorithm_key_length = 0,
       integrity_algorithm = 0,
       integrity_algorithm_key_length = 0,
       pseudo_random_function = 0,
       pseudo_random_function_key_length = 0,
       diffie_hellman_group = 0 \<rparr>"

definition example_transform_length :: "transform_substructure_t \<Rightarrow> nat" where
  "example_transform_length t = 8 + (case key_length t of None \<Rightarrow> 0 | Some k \<Rightarrow> 4)"

definition example_length :: "proposal_substructure_t \<Rightarrow> nat" where
  "example_length p =
     8 + length (p_spi p) + sum_list (map example_transform_length (p_transforms p))"

text \<open>
  Three IKE proposals: one as \<^verbatim>\<open>sa_payload_create_from_ike_proposals\<close> builds it, one
  with three transforms (no pseudo-random function), and one with the four required
  transforms whose encryption transform carries no key-length attribute. An ESP
  proposal with an SPI of four bytes and a given number.
\<close>

definition example_ike_proposal :: proposal_substructure_t where
  "example_ike_proposal = create_proposal_substructure 0 example_record"

definition example_three_transforms :: proposal_substructure_t where
  "example_three_transforms =
     add_transform_substructure
       (add_transform_substructure
          (add_transform_substructure
             (set_proposal_number (set_protocol_id proposal_substructure_create IKE) 2)
             (transform_substructure_create_type ENCRYPTION_ALGORITHM 12 128))
          (transform_substructure_create_type INTEGRITY_ALGORITHM 2 160))
       (transform_substructure_create_type DIFFIE_HELLMAN_GROUP 14 0)"

definition example_no_key_length :: proposal_substructure_t where
  "example_no_key_length =
     add_transform_substructure
       (add_transform_substructure
          (add_transform_substructure
             (add_transform_substructure
                (set_proposal_number (set_protocol_id proposal_substructure_create IKE) 2)
                ((transform_substructure_create_type ENCRYPTION_ALGORITHM 12 0)
                   \<lparr>key_length := None\<rparr>))
             (transform_substructure_create_type PSEUDO_RANDOM_FUNCTION 2 20))
          (transform_substructure_create_type INTEGRITY_ALGORITHM 2 160))
       (transform_substructure_create_type DIFFIE_HELLMAN_GROUP 14 0)"

definition example_esp_proposal :: "int \<Rightarrow> proposal_substructure_t" where
  "example_esp_proposal n =
     (set_proposal_number (set_protocol_id proposal_substructure_create ESP) n)
       \<lparr>p_spi := [1, 2, 3, 4]\<rparr>"

text \<open>
  A payload with a given critical flag to which IKE proposals with the given
  numbers have been added, in this order.
\<close>

definition numbered_proposal :: "int \<Rightarrow> proposal_substructure_t" where
  "numbered_proposal n = set_proposal_number example_ike_proposal n"

definition example_payload :: "bool \<Rightarrow> int list \<Rightarrow> private_sa_payload_t" where
  "example_payload c ns =
     add_proposal_substructures example_length (sa_payload_create\<lparr>critical := c\<rparr>)
       (map numbered_proposal ns)"

section \<open>Properties\<close>

subsection \<open>verify\<close>

text \<open>
  With the expected number fixed at 1, the loop accepts exactly the sequences in
  which every proposal verifies, every number is 1 or 2, and the first number is 1.
\<close>

lemma verify_loop_accepts_iff:
  "verify_loop pverify 1 first SUCCESS ps = SUCCESS \<longleftrightarrow>
     (list_all (\<lambda>p. pverify p = SUCCESS) ps \<and>
      list_all (\<lambda>p. get_proposal_number p = 1 \<or> get_proposal_number p = 2) ps \<and>
      (first \<longrightarrow> ps = [] \<or> get_proposal_number (hd ps) = 1))"
  by (induction ps arbitrary: first) auto

text \<open>
  Of the four sequences the specification lists, the loop accepts 1, 1, 2 and
  rejects 1, 3 and 2, 1, whenever every proposal verifies.
\<close>

lemma verify_numbering_examples:
  assumes "\<not> critical this"
    and "list_all (\<lambda>p. pverify p = SUCCESS) (proposals this)"
  shows "map get_proposal_number (proposals this) = [1, 1, 2] \<Longrightarrow> verify pverify this = SUCCESS"
    and "map get_proposal_number (proposals this) = [1, 3] \<Longrightarrow> verify pverify this = FAILED"
    and "map get_proposal_number (proposals this) = [2, 1] \<Longrightarrow> verify pverify this = FAILED"
proof -
  have acc: "verify pverify this = SUCCESS \<longleftrightarrow>
               list_all (\<lambda>p. get_proposal_number p = 1 \<or> get_proposal_number p = 2)
                 (proposals this) \<and>
               (proposals this = [] \<or> get_proposal_number (hd (proposals this)) = 1)"
    using assms by (simp add: verify_def verify_loop_accepts_iff)
  show "verify pverify this = SUCCESS"
    if "map get_proposal_number (proposals this) = [1, 1, 2]"
    using that unfolding acc by auto
  have rej: "verify pverify this = FAILED"
    if "proposals this = a # b # rest" "get_proposal_number a = 2 \<or> get_proposal_number b = 3"
    for a b rest
    using that assms by (auto simp: verify_def)
  show "verify pverify this = FAILED"
    if "map get_proposal_number (proposals this) = [1, 3]"
    using that rej by auto
  show "verify pverify this = FAILED"
    if "map get_proposal_number (proposals this) = [2, 1]"
    using that rej by auto
qed

text \<open>
  C1: on a payload whose critical flag is false and whose proposals all verify,
  \<^verbatim>\<open>verify\<close> returns FAILED for the proposal numbers 1, 2, 3. The third number is
  compared with the expected number 1, which the loop never advances: 3 is greater
  than 1 and different from 1 + 1.
\<close>

theorem verify_1_2_3_fails:
  assumes "\<not> critical this"
    and "list_all (\<lambda>p. pverify p = SUCCESS) (proposals this)"
    and "map get_proposal_number (proposals this) = [1, 2, 3]"
  shows "verify pverify this = FAILED"
proof -
  from assms(3) obtain a b c where ps: "proposals this = [a, b, c]"
    and n: "get_proposal_number a = 1" "get_proposal_number b = 2" "get_proposal_number c = 3"
    by auto
  from assms(2) ps have v: "pverify a = SUCCESS" "pverify b = SUCCESS"
    by simp_all
  show ?thesis
    using assms(1) by (simp add: verify_def ps n v)
qed

theorem verify_1_2_3_fails_witness:
  "\<not> critical (example_payload False [1, 2, 3]) \<and>
   list_all (\<lambda>p. (\<lambda>_. SUCCESS) p = SUCCESS) (proposals (example_payload False [1, 2, 3])) \<and>
   map get_proposal_number (proposals (example_payload False [1, 2, 3])) = [1, 2, 3] \<and>
   verify (\<lambda>_. SUCCESS) (example_payload False [1, 2, 3]) = FAILED"
proof -
  have a: "\<not> critical (example_payload False [1, 2, 3])"
    by code_simp
  have b: "list_all (\<lambda>p. (\<lambda>_. SUCCESS) p = SUCCESS) (proposals (example_payload False [1, 2, 3]))"
    by (simp add: list_all_iff)
  have c: "map get_proposal_number (proposals (example_payload False [1, 2, 3])) = [1, 2, 3]"
    by code_simp
  from verify_1_2_3_fails [OF a b c] a b c show ?thesis by blast
qed

text \<open>
  C4: when the critical flag is set, \<^verbatim>\<open>verify\<close> returns FAILED, whatever the
  proposals are and whatever their own verify would return.
\<close>

theorem verify_critical: "critical this \<Longrightarrow> verify pverify this = FAILED"
  by (simp add: verify_def)

theorem verify_critical_witness:
  "critical (example_payload True [1, 2]) \<and>
   verify (\<lambda>_. SUCCESS) (example_payload True [1, 2]) = FAILED \<and>
   verify (\<lambda>_. SUCCESS) (example_payload False [1, 2]) = SUCCESS"
proof -
  have a: "critical (example_payload True [1, 2])"
    by code_simp
  have b: "verify (\<lambda>_. SUCCESS) (example_payload False [1, 2]) = SUCCESS"
    by code_simp
  from verify_critical [OF a] a b show ?thesis by blast
qed

text \<open>
  C10: the payload that \<^verbatim>\<open>sa_payload_create\<close> returns has next-payload type
  NO\_PAYLOAD, a payload length equal to the header length of 4 bytes, no proposals
  and a critical flag that is false, and \<^verbatim>\<open>verify\<close> returns SUCCESS on it.
\<close>

theorem sa_payload_create_fresh:
  "get_next_type sa_payload_create = NO_PAYLOAD \<and>
   unat (payload_length sa_payload_create) = SA_PAYLOAD_HEADER_LENGTH \<and>
   SA_PAYLOAD_HEADER_LENGTH = 4 \<and>
   proposals sa_payload_create = [] \<and>
   critical sa_payload_create = False \<and>
   verify pverify sa_payload_create = SUCCESS"
  by (simp add: sa_payload_create_def get_next_type_def SA_PAYLOAD_HEADER_LENGTH_def
      SA_PAYLOAD_CRITICAL_FLAG_def verify_def)

subsection \<open>get\_ike\_proposals: the first loop\<close>

lemma get_ike_proposals_count_no_ike:
  "list_all (\<lambda>p. get_protocol_id p \<noteq> IKE) ps \<Longrightarrow>
   get_ike_proposals_count ps n = Some n"
  by (induction ps arbitrary: n) auto

text \<open>
  C5: on a payload none of whose proposals has protocol id IKE (a payload with no
  proposals among them), \<^verbatim>\<open>get_ike_proposals\<close> returns NOT\_FOUND and leaves both
  output parameters as they were.
\<close>

theorem get_ike_proposals_not_found:
  "list_all (\<lambda>p. get_protocol_id p \<noteq> IKE) (proposals this) \<Longrightarrow>
   get_ike_proposals alloc this out = (NOT_FOUND, out)"
  by (simp add: get_ike_proposals_def get_ike_proposals_count_no_ike)

theorem get_ike_proposals_not_found_witness:
  "list_all (\<lambda>p. get_protocol_id p \<noteq> IKE)
     (proposals (add_proposal_substructures example_length sa_payload_create
                   [example_esp_proposal 1, example_esp_proposal 2])) \<and>
   get_ike_proposals example_alloc
     (add_proposal_substructures example_length sa_payload_create
        [example_esp_proposal 1, example_esp_proposal 2]) ([example_record], 1) =
     (NOT_FOUND, ([example_record], 1)) \<and>
   get_ike_proposals example_alloc sa_payload_create ([example_record], 1) =
     (NOT_FOUND, ([example_record], 1))"
proof -
  have a: "list_all (\<lambda>p. get_protocol_id p \<noteq> IKE)
     (proposals (add_proposal_substructures example_length sa_payload_create
                   [example_esp_proposal 1, example_esp_proposal 2]))"
    by code_simp
  have b: "list_all (\<lambda>p. get_protocol_id p \<noteq> IKE) (proposals sa_payload_create)"
    by (simp add: sa_payload_create_def)
  from get_ike_proposals_not_found [OF a] get_ike_proposals_not_found [OF b] a
  show ?thesis by blast
qed

lemma get_ike_proposals_count_Some:
  "get_ike_proposals_count ps n = Some k \<Longrightarrow>
   k = n + length (filter (\<lambda>p. get_protocol_id p = IKE) ps)"
  by (induction ps arbitrary: n) (fastforce split: if_splits)+

lemma get_ike_proposals_count_None:
  "list_ex (\<lambda>p. get_protocol_id p = IKE \<and>
              (get_transform_count p \<noteq> 4 \<or> get_spi_size p \<noteq> 0)) ps \<Longrightarrow>
   get_ike_proposals_count ps n = None"
  by (induction ps arbitrary: n) auto

subsection \<open>get\_ike\_proposals: the second loop\<close>

text \<open>
  The flags after one transform, and after all transforms of a proposal: a flag of
  a key-length-parameterised type is set by a transform of that type whose key
  length is present, the Diffie-Hellman flag by any transform of that type. The
  flags do not depend on the array element the loop writes to.
\<close>

lemma transform_step_flags:
  "snd (get_ike_proposals_transform (slot, fl) t) =
     fl\<lparr>encryption_algorithm_found :=
          encryption_algorithm_found fl \<or>
          (get_transform_type t = ENCRYPTION_ALGORITHM \<and> key_length t \<noteq> None),
        integrity_algorithm_found :=
          integrity_algorithm_found fl \<or>
          (get_transform_type t = INTEGRITY_ALGORITHM \<and> key_length t \<noteq> None),
        pseudo_random_function_found :=
          pseudo_random_function_found fl \<or>
          (get_transform_type t = PSEUDO_RANDOM_FUNCTION \<and> key_length t \<noteq> None),
        diffie_hellman_group_found :=
          diffie_hellman_group_found fl \<or> get_transform_type t = DIFFIE_HELLMAN_GROUP\<rparr>"
  by (cases "get_transform_type t"; cases "key_length t")
     (simp_all add: get_ike_proposals_transform_def get_key_length_def)

lemma foldl_flags:
  "snd (foldl get_ike_proposals_transform (slot, fl) ts) =
     \<lparr> encryption_algorithm_found =
         (encryption_algorithm_found fl \<or>
          list_ex (\<lambda>t. get_transform_type t = ENCRYPTION_ALGORITHM \<and> key_length t \<noteq> None) ts),
       integrity_algorithm_found =
         (integrity_algorithm_found fl \<or>
          list_ex (\<lambda>t. get_transform_type t = INTEGRITY_ALGORITHM \<and> key_length t \<noteq> None) ts),
       pseudo_random_function_found =
         (pseudo_random_function_found fl \<or>
          list_ex (\<lambda>t. get_transform_type t = PSEUDO_RANDOM_FUNCTION \<and> key_length t \<noteq> None) ts),
       diffie_hellman_group_found =
         (diffie_hellman_group_found fl \<or>
          list_ex (\<lambda>t. get_transform_type t = DIFFIE_HELLMAN_GROUP) ts) \<rparr>"
proof (induction ts arbitrary: slot fl)
  case Nil
  show ?case by simp
next
  case (Cons t ts)
  obtain slot' fl' where st: "get_ike_proposals_transform (slot, fl) t = (slot', fl')"
    by (cases "get_ike_proposals_transform (slot, fl) t")
  have fl': "fl' = snd (get_ike_proposals_transform (slot, fl) t)"
    by (simp add: st)
  show ?case
    by (simp add: st Cons.IH) (auto simp: fl' transform_step_flags)
qed


lemma transforms_flags:
  "snd (get_ike_proposals_transforms ts slot) =
     \<lparr> encryption_algorithm_found =
         list_ex (\<lambda>t. get_transform_type t = ENCRYPTION_ALGORITHM \<and> key_length t \<noteq> None) ts,
       integrity_algorithm_found =
         list_ex (\<lambda>t. get_transform_type t = INTEGRITY_ALGORITHM \<and> key_length t \<noteq> None) ts,
       pseudo_random_function_found =
         list_ex (\<lambda>t. get_transform_type t = PSEUDO_RANDOM_FUNCTION \<and> key_length t \<noteq> None) ts,
       diffie_hellman_group_found =
         list_ex (\<lambda>t. get_transform_type t = DIFFIE_HELLMAN_GROUP) ts \<rparr>"
  by (simp add: get_ike_proposals_transforms_def foldl_flags no_flags_def)

lemma get_ike_proposals_fill_length:
  "get_ike_proposals_fill ps k tmp = Some tmp' \<Longrightarrow> length tmp' = length tmp"
  by (induction ps arbitrary: k tmp) (auto split: if_splits)

lemma get_ike_proposals_fill_None:
  "list_ex (\<lambda>p. get_protocol_id p = IKE \<and>
              \<not> all_found (snd (get_ike_proposals_transforms
                                  (create_transform_substructure_iterator p) slot0))) ps \<Longrightarrow>
   get_ike_proposals_fill ps k tmp = None"
proof (induction ps arbitrary: k tmp)
  case Nil
  then show ?case by simp
next
  case (Cons p ps)
  have indep: "snd (get_ike_proposals_transforms (create_transform_substructure_iterator p) (tmp ! k)) =
               snd (get_ike_proposals_transforms (create_transform_substructure_iterator p) slot0)"
    by (simp add: transforms_flags)
  from Cons show ?case
    by (auto simp: indep)
qed

lemma get_ike_proposals_failure:
  assumes ike: "list_ex (\<lambda>p. get_protocol_id p = IKE) (proposals this)"
    and bad: "get_ike_proposals_count (proposals this) 0 = None \<or>
              get_ike_proposals_fill (proposals this) 0
                (map alloc [0..<length (filter (\<lambda>p. get_protocol_id p = IKE) (proposals this))]) = None"
  shows "get_ike_proposals alloc this out = (FAILED, out)"
proof (cases "get_ike_proposals_count (proposals this) 0")
  case None
  then show ?thesis by (simp add: get_ike_proposals_def)
next
  case (Some n)
  from get_ike_proposals_count_Some [OF Some]
  have n: "n = length (filter (\<lambda>p. get_protocol_id p = IKE) (proposals this))"
    by simp
  from ike have "filter (\<lambda>p. get_protocol_id p = IKE) (proposals this) \<noteq> []"
    by (simp add: filter_empty_conv list_ex_iff)
  with n have "n \<noteq> 0" by simp
  moreover from bad Some n
  have "get_ike_proposals_fill (proposals this) 0 (map alloc [0..<n]) = None"
    by simp
  ultimately show ?thesis
    by (simp add: get_ike_proposals_def Some)
qed

text \<open>
  C3: when some proposal of protocol IKE has a transform count other than 4, or a
  non-empty SPI, or no transform of one of the four required types,
  \<^verbatim>\<open>get_ike_proposals\<close> returns FAILED, whatever the other proposals are, and
  leaves both output parameters as they were.
\<close>

theorem get_ike_proposals_structural_failure:
  assumes "list_ex (\<lambda>p. get_protocol_id p = IKE \<and>
             (get_transform_count p \<noteq> 4 \<or> get_spi_size p \<noteq> 0 \<or>
              \<not> list_ex (\<lambda>t. get_transform_type t = ENCRYPTION_ALGORITHM)
                    (create_transform_substructure_iterator p) \<or>
              \<not> list_ex (\<lambda>t. get_transform_type t = INTEGRITY_ALGORITHM)
                    (create_transform_substructure_iterator p) \<or>
              \<not> list_ex (\<lambda>t. get_transform_type t = PSEUDO_RANDOM_FUNCTION)
                    (create_transform_substructure_iterator p) \<or>
              \<not> list_ex (\<lambda>t. get_transform_type t = DIFFIE_HELLMAN_GROUP)
                    (create_transform_substructure_iterator p)))
           (proposals this)"
  shows "get_ike_proposals alloc this out = (FAILED, out)"
proof -
  from assms obtain p where p: "p \<in> set (proposals this)" "get_protocol_id p = IKE"
    and cases: "get_transform_count p \<noteq> 4 \<or> get_spi_size p \<noteq> 0 \<or>
              \<not> list_ex (\<lambda>t. get_transform_type t = ENCRYPTION_ALGORITHM)
                    (create_transform_substructure_iterator p) \<or>
              \<not> list_ex (\<lambda>t. get_transform_type t = INTEGRITY_ALGORITHM)
                    (create_transform_substructure_iterator p) \<or>
              \<not> list_ex (\<lambda>t. get_transform_type t = PSEUDO_RANDOM_FUNCTION)
                    (create_transform_substructure_iterator p) \<or>
              \<not> list_ex (\<lambda>t. get_transform_type t = DIFFIE_HELLMAN_GROUP)
                    (create_transform_substructure_iterator p)"
    unfolding list_ex_iff by blast
  have ike: "list_ex (\<lambda>p. get_protocol_id p = IKE) (proposals this)"
    using p unfolding list_ex_iff by blast
  show ?thesis
  proof (cases "get_transform_count p \<noteq> 4 \<or> get_spi_size p \<noteq> 0")
    case True
    with p have "list_ex (\<lambda>p. get_protocol_id p = IKE \<and>
              (get_transform_count p \<noteq> 4 \<or> get_spi_size p \<noteq> 0)) (proposals this)"
      unfolding list_ex_iff by blast
    then have "get_ike_proposals_count (proposals this) 0 = None"
      by (rule get_ike_proposals_count_None)
    with ike show ?thesis by (simp add: get_ike_proposals_failure)
  next
    case False
    with cases have "\<not> all_found (snd (get_ike_proposals_transforms
                                  (create_transform_substructure_iterator p) slot0))"
      for slot0
      by (auto simp: transforms_flags all_found_def list_ex_iff)
    with p have "list_ex (\<lambda>p. get_protocol_id p = IKE \<and>
              \<not> all_found (snd (get_ike_proposals_transforms
                                  (create_transform_substructure_iterator p) (alloc 0)))) (proposals this)"
      unfolding list_ex_iff by blast
    then have "get_ike_proposals_fill (proposals this) 0 tmp = None" for tmp
      by (rule get_ike_proposals_fill_None)
    with ike show ?thesis by (simp add: get_ike_proposals_failure)
  qed
qed

theorem get_ike_proposals_structural_failure_witness:
  "list_ex (\<lambda>p. get_protocol_id p = IKE \<and>
             (get_transform_count p \<noteq> 4 \<or> get_spi_size p \<noteq> 0 \<or>
              \<not> list_ex (\<lambda>t. get_transform_type t = ENCRYPTION_ALGORITHM)
                    (create_transform_substructure_iterator p) \<or>
              \<not> list_ex (\<lambda>t. get_transform_type t = INTEGRITY_ALGORITHM)
                    (create_transform_substructure_iterator p) \<or>
              \<not> list_ex (\<lambda>t. get_transform_type t = PSEUDO_RANDOM_FUNCTION)
                    (create_transform_substructure_iterator p) \<or>
              \<not> list_ex (\<lambda>t. get_transform_type t = DIFFIE_HELLMAN_GROUP)
                    (create_transform_substructure_iterator p)))
           (proposals (add_proposal_substructures example_length sa_payload_create
                         [example_ike_proposal, example_three_transforms])) \<and>
   get_ike_proposals example_alloc
     (add_proposal_substructures example_length sa_payload_create
        [example_ike_proposal, example_three_transforms]) ([], 0) = (FAILED, ([], 0)) \<and>
   get_ike_proposals example_alloc
     (add_proposal_substructures example_length sa_payload_create [example_ike_proposal])
     ([], 0) = (SUCCESS, ([example_record], 1))"
proof -
  have h: "list_ex (\<lambda>p. get_protocol_id p = IKE \<and>
             (get_transform_count p \<noteq> 4 \<or> get_spi_size p \<noteq> 0 \<or>
              \<not> list_ex (\<lambda>t. get_transform_type t = ENCRYPTION_ALGORITHM)
                    (create_transform_substructure_iterator p) \<or>
              \<not> list_ex (\<lambda>t. get_transform_type t = INTEGRITY_ALGORITHM)
                    (create_transform_substructure_iterator p) \<or>
              \<not> list_ex (\<lambda>t. get_transform_type t = PSEUDO_RANDOM_FUNCTION)
                    (create_transform_substructure_iterator p) \<or>
              \<not> list_ex (\<lambda>t. get_transform_type t = DIFFIE_HELLMAN_GROUP)
                    (create_transform_substructure_iterator p)))
           (proposals (add_proposal_substructures example_length sa_payload_create
                         [example_ike_proposal, example_three_transforms]))"
    by code_simp
  have good: "get_ike_proposals example_alloc
     (add_proposal_substructures example_length sa_payload_create [example_ike_proposal])
     ([], 0) = (SUCCESS, ([example_record], 1))"
    by code_simp
  from get_ike_proposals_structural_failure [OF h] h good show ?thesis by blast
qed

lemma get_key_length_status:
  "fst (get_key_length t old) = SUCCESS \<longleftrightarrow> key_length t \<noteq> None"
  by (cases "key_length t") (simp_all add: get_key_length_def)

lemma four_types_once:
  assumes len: "length ts = 4"
    and e: "list_ex (\<lambda>t. get_transform_type t = ENCRYPTION_ALGORITHM) ts"
    and i: "list_ex (\<lambda>t. get_transform_type t = INTEGRITY_ALGORITHM) ts"
    and p: "list_ex (\<lambda>t. get_transform_type t = PSEUDO_RANDOM_FUNCTION) ts"
    and d: "list_ex (\<lambda>t. get_transform_type t = DIFFIE_HELLMAN_GROUP) ts"
  shows "inj_on get_transform_type (set ts)"
proof -
  have sub: "{ENCRYPTION_ALGORITHM, INTEGRITY_ALGORITHM, PSEUDO_RANDOM_FUNCTION,
              DIFFIE_HELLMAN_GROUP} \<subseteq> set (map get_transform_type ts)"
    using e i p d unfolding list_ex_iff by (auto intro: rev_image_eqI)
  have "card {ENCRYPTION_ALGORITHM, INTEGRITY_ALGORITHM, PSEUDO_RANDOM_FUNCTION,
              DIFFIE_HELLMAN_GROUP} = 4"
    by simp
  with sub have "4 \<le> card (set (map get_transform_type ts))"
    by (metis card_mono List.finite_set)
  moreover have "card (set (map get_transform_type ts)) \<le> length (map get_transform_type ts)"
    by (rule card_length)
  ultimately have "card (set (map get_transform_type ts)) = length (map get_transform_type ts)"
    using len by simp
  then have "distinct (map get_transform_type ts)"
    by (rule card_distinct)
  then show ?thesis
    by (simp add: distinct_map)
qed

text \<open>
  C9: after the loop over a proposal's transforms, the encryption, integrity and
  pseudo-random-function flags are set exactly when a transform of that type with
  a present key length was seen, the Diffie-Hellman flag exactly when a transform
  of that type was seen. Hence, when some proposal of protocol IKE has exactly 4
  transforms, an empty SPI and a transform of each required type, and the query of
  the key length fails on its encryption, integrity or pseudo-random-function
  transform, \<^verbatim>\<open>get_ike_proposals\<close> returns FAILED and leaves both output parameters
  as they were.
\<close>

theorem get_ike_proposals_key_length_required:
  "snd (get_ike_proposals_transforms ts slot) =
     \<lparr> encryption_algorithm_found =
         list_ex (\<lambda>t. get_transform_type t = ENCRYPTION_ALGORITHM \<and> key_length t \<noteq> None) ts,
       integrity_algorithm_found =
         list_ex (\<lambda>t. get_transform_type t = INTEGRITY_ALGORITHM \<and> key_length t \<noteq> None) ts,
       pseudo_random_function_found =
         list_ex (\<lambda>t. get_transform_type t = PSEUDO_RANDOM_FUNCTION \<and> key_length t \<noteq> None) ts,
       diffie_hellman_group_found =
         list_ex (\<lambda>t. get_transform_type t = DIFFIE_HELLMAN_GROUP) ts \<rparr> \<and>
   (list_ex (\<lambda>p. get_protocol_id p = IKE \<and> get_transform_count p = 4 \<and> get_spi_size p = 0 \<and>
              list_ex (\<lambda>t. get_transform_type t = ENCRYPTION_ALGORITHM)
                (create_transform_substructure_iterator p) \<and>
              list_ex (\<lambda>t. get_transform_type t = INTEGRITY_ALGORITHM)
                (create_transform_substructure_iterator p) \<and>
              list_ex (\<lambda>t. get_transform_type t = PSEUDO_RANDOM_FUNCTION)
                (create_transform_substructure_iterator p) \<and>
              list_ex (\<lambda>t. get_transform_type t = DIFFIE_HELLMAN_GROUP)
                (create_transform_substructure_iterator p) \<and>
              list_ex (\<lambda>t. (get_transform_type t = ENCRYPTION_ALGORITHM \<or>
                            get_transform_type t = INTEGRITY_ALGORITHM \<or>
                            get_transform_type t = PSEUDO_RANDOM_FUNCTION) \<and>
                           fst (get_key_length t old) \<noteq> SUCCESS)
                (create_transform_substructure_iterator p))
      (proposals this) \<longrightarrow>
    get_ike_proposals alloc this out = (FAILED, out))"
proof (intro conjI impI)
  show "snd (get_ike_proposals_transforms ts slot) =
     \<lparr> encryption_algorithm_found =
         list_ex (\<lambda>t. get_transform_type t = ENCRYPTION_ALGORITHM \<and> key_length t \<noteq> None) ts,
       integrity_algorithm_found =
         list_ex (\<lambda>t. get_transform_type t = INTEGRITY_ALGORITHM \<and> key_length t \<noteq> None) ts,
       pseudo_random_function_found =
         list_ex (\<lambda>t. get_transform_type t = PSEUDO_RANDOM_FUNCTION \<and> key_length t \<noteq> None) ts,
       diffie_hellman_group_found =
         list_ex (\<lambda>t. get_transform_type t = DIFFIE_HELLMAN_GROUP) ts \<rparr>"
    by (rule transforms_flags)
next
  assume "list_ex (\<lambda>p. get_protocol_id p = IKE \<and> get_transform_count p = 4 \<and> get_spi_size p = 0 \<and>
              list_ex (\<lambda>t. get_transform_type t = ENCRYPTION_ALGORITHM)
                (create_transform_substructure_iterator p) \<and>
              list_ex (\<lambda>t. get_transform_type t = INTEGRITY_ALGORITHM)
                (create_transform_substructure_iterator p) \<and>
              list_ex (\<lambda>t. get_transform_type t = PSEUDO_RANDOM_FUNCTION)
                (create_transform_substructure_iterator p) \<and>
              list_ex (\<lambda>t. get_transform_type t = DIFFIE_HELLMAN_GROUP)
                (create_transform_substructure_iterator p) \<and>
              list_ex (\<lambda>t. (get_transform_type t = ENCRYPTION_ALGORITHM \<or>
                            get_transform_type t = INTEGRITY_ALGORITHM \<or>
                            get_transform_type t = PSEUDO_RANDOM_FUNCTION) \<and>
                           fst (get_key_length t old) \<noteq> SUCCESS)
                (create_transform_substructure_iterator p))
      (proposals this)"
  then obtain p t where p: "p \<in> set (proposals this)" "get_protocol_id p = IKE"
    and len: "get_transform_count p = 4"
    and e: "list_ex (\<lambda>t. get_transform_type t = ENCRYPTION_ALGORITHM)
                (create_transform_substructure_iterator p)"
    and i: "list_ex (\<lambda>t. get_transform_type t = INTEGRITY_ALGORITHM)
                (create_transform_substructure_iterator p)"
    and f: "list_ex (\<lambda>t. get_transform_type t = PSEUDO_RANDOM_FUNCTION)
                (create_transform_substructure_iterator p)"
    and d: "list_ex (\<lambda>t. get_transform_type t = DIFFIE_HELLMAN_GROUP)
                (create_transform_substructure_iterator p)"
    and t: "t \<in> set (create_transform_substructure_iterator p)"
      "get_transform_type t = ENCRYPTION_ALGORITHM \<or>
       get_transform_type t = INTEGRITY_ALGORITHM \<or>
       get_transform_type t = PSEUDO_RANDOM_FUNCTION"
      "fst (get_key_length t old) \<noteq> SUCCESS"
    unfolding list_ex_iff by blast
  from len have "length (create_transform_substructure_iterator p) = 4"
    by (simp add: get_transform_count_def create_transform_substructure_iterator_def)
  from four_types_once [OF this e i f d]
  have inj: "inj_on get_transform_type (set (create_transform_substructure_iterator p))" .
  from t(3) have nokey: "key_length t = None"
    by (simp add: get_key_length_status)
  have only: "t' = t"
    if "t' \<in> set (create_transform_substructure_iterator p)"
      and "get_transform_type t' = get_transform_type t" for t'
    using inj that t(1) by (auto dest: inj_onD)
  have "\<not> list_ex (\<lambda>t'. get_transform_type t' = get_transform_type t \<and> key_length t' \<noteq> None)
            (create_transform_substructure_iterator p)"
    unfolding list_ex_iff using only nokey by auto
  with t(2) have "\<not> all_found (snd (get_ike_proposals_transforms
                                  (create_transform_substructure_iterator p) (alloc 0)))"
    by (auto simp: transforms_flags all_found_def)
  with p have "list_ex (\<lambda>p. get_protocol_id p = IKE \<and>
              \<not> all_found (snd (get_ike_proposals_transforms
                                  (create_transform_substructure_iterator p) (alloc 0)))) (proposals this)"
    unfolding list_ex_iff by blast
  then have "get_ike_proposals_fill (proposals this) 0 tmp = None" for tmp
    by (rule get_ike_proposals_fill_None)
  moreover have "list_ex (\<lambda>p. get_protocol_id p = IKE) (proposals this)"
    using p unfolding list_ex_iff by blast
  ultimately show "get_ike_proposals alloc this out = (FAILED, out)"
    by (simp add: get_ike_proposals_failure)
qed

theorem get_ike_proposals_key_length_required_witness:
  "list_ex (\<lambda>p. get_protocol_id p = IKE \<and> get_transform_count p = 4 \<and> get_spi_size p = 0 \<and>
              list_ex (\<lambda>t. get_transform_type t = ENCRYPTION_ALGORITHM)
                (create_transform_substructure_iterator p) \<and>
              list_ex (\<lambda>t. get_transform_type t = INTEGRITY_ALGORITHM)
                (create_transform_substructure_iterator p) \<and>
              list_ex (\<lambda>t. get_transform_type t = PSEUDO_RANDOM_FUNCTION)
                (create_transform_substructure_iterator p) \<and>
              list_ex (\<lambda>t. get_transform_type t = DIFFIE_HELLMAN_GROUP)
                (create_transform_substructure_iterator p) \<and>
              list_ex (\<lambda>t. (get_transform_type t = ENCRYPTION_ALGORITHM \<or>
                            get_transform_type t = INTEGRITY_ALGORITHM \<or>
                            get_transform_type t = PSEUDO_RANDOM_FUNCTION) \<and>
                           fst (get_key_length t 0) \<noteq> SUCCESS)
                (create_transform_substructure_iterator p))
      (proposals (add_proposal_substructures example_length sa_payload_create
                    [example_ike_proposal, example_no_key_length])) \<and>
   get_ike_proposals example_alloc
     (add_proposal_substructures example_length sa_payload_create
        [example_ike_proposal, example_no_key_length]) ([], 0) = (FAILED, ([], 0)) \<and>
   snd (get_ike_proposals_transforms
          (create_transform_substructure_iterator example_no_key_length) (example_alloc 0)) =
     \<lparr> encryption_algorithm_found = False,
       integrity_algorithm_found = True,
       pseudo_random_function_found = True,
       diffie_hellman_group_found = True \<rparr>"
proof -
  have h: "list_ex (\<lambda>p. get_protocol_id p = IKE \<and> get_transform_count p = 4 \<and> get_spi_size p = 0 \<and>
              list_ex (\<lambda>t. get_transform_type t = ENCRYPTION_ALGORITHM)
                (create_transform_substructure_iterator p) \<and>
              list_ex (\<lambda>t. get_transform_type t = INTEGRITY_ALGORITHM)
                (create_transform_substructure_iterator p) \<and>
              list_ex (\<lambda>t. get_transform_type t = PSEUDO_RANDOM_FUNCTION)
                (create_transform_substructure_iterator p) \<and>
              list_ex (\<lambda>t. get_transform_type t = DIFFIE_HELLMAN_GROUP)
                (create_transform_substructure_iterator p) \<and>
              list_ex (\<lambda>t. (get_transform_type t = ENCRYPTION_ALGORITHM \<or>
                            get_transform_type t = INTEGRITY_ALGORITHM \<or>
                            get_transform_type t = PSEUDO_RANDOM_FUNCTION) \<and>
                           fst (get_key_length t 0) \<noteq> SUCCESS)
                (create_transform_substructure_iterator p))
      (proposals (add_proposal_substructures example_length sa_payload_create
                    [example_ike_proposal, example_no_key_length]))"
    by code_simp
  have ex: "list_ex (\<lambda>t. get_transform_type t = ENCRYPTION_ALGORITHM \<and> key_length t \<noteq> None)
              (create_transform_substructure_iterator example_no_key_length) = False"
    "list_ex (\<lambda>t. get_transform_type t = INTEGRITY_ALGORITHM \<and> key_length t \<noteq> None)
              (create_transform_substructure_iterator example_no_key_length) = True"
    "list_ex (\<lambda>t. get_transform_type t = PSEUDO_RANDOM_FUNCTION \<and> key_length t \<noteq> None)
              (create_transform_substructure_iterator example_no_key_length) = True"
    "list_ex (\<lambda>t. get_transform_type t = DIFFIE_HELLMAN_GROUP)
              (create_transform_substructure_iterator example_no_key_length) = True"
    by code_simp+
  note inst = get_ike_proposals_key_length_required
    [of "create_transform_substructure_iterator example_no_key_length" "example_alloc 0" 0
        "add_proposal_substructures example_length sa_payload_create
           [example_ike_proposal, example_no_key_length]"
        example_alloc "([], 0)"]
  from inst h have "get_ike_proposals example_alloc
     (add_proposal_substructures example_length sa_payload_create
        [example_ike_proposal, example_no_key_length]) ([], 0) = (FAILED, ([], 0))"
    by blast
  moreover from inst have "snd (get_ike_proposals_transforms
          (create_transform_substructure_iterator example_no_key_length) (example_alloc 0)) =
     \<lparr> encryption_algorithm_found = False,
       integrity_algorithm_found = True,
       pseudo_random_function_found = True,
       diffie_hellman_group_found = True \<rparr>"
    by (simp only: ex)
  ultimately show ?thesis using h by blast
qed


subsection \<open>compute\_length, get\_length and add\_proposal\_substructure\<close>

lemma compute_length_loop_sum:
  "compute_length_loop plength len ps = len + sum_list (map plength ps)"
  by (induction ps arbitrary: len) simp_all

lemma proposals_compute_length [simp]:
  "proposals (compute_length plength this) = proposals this"
  by (simp add: compute_length_def)

lemma payload_length_compute_length:
  "payload_length (compute_length plength this) =
     of_nat (SA_PAYLOAD_HEADER_LENGTH + sum_list (map plength (proposals this)))"
  unfolding compute_length_def compute_length_loop_sum by simp

lemma unat_16: "unat (of_nat n :: 16 word) = n mod 65536"
  by (simp add: unat_of_nat)

lemma get_length_value:
  "fst (get_length plength this) =
     (SA_PAYLOAD_HEADER_LENGTH + sum_list (map plength (proposals this))) mod 65536"
  unfolding get_length_def Let_def fst_conv payload_length_compute_length unat_16 ..

lemma proposals_get_length [simp]:
  "proposals (snd (get_length plength this)) = proposals this"
  by (simp add: get_length_def Let_def)

lemma proposals_add_proposal_substructure:
  "proposals (add_proposal_substructure plength this p) =
     (if proposals this = [] then []
      else butlast (proposals this) @ [set_is_last_proposal (last (proposals this)) False])
     @ [set_is_last_proposal p True]"
  by (simp add: add_proposal_substructure_def Let_def)

lemma set_is_last_proposal_twice [simp]:
  "set_is_last_proposal (set_is_last_proposal p b) c = set_is_last_proposal p c"
  by (simp add: set_is_last_proposal_def)

lemma get_is_last_proposal_set [simp]:
  "get_is_last_proposal (set_is_last_proposal p b) = b"
  by (simp add: set_is_last_proposal_def get_is_last_proposal_def)

lemma add_proposal_substructures_snoc:
  "add_proposal_substructures plength this (ps @ [p]) =
     add_proposal_substructure plength (add_proposal_substructures plength this ps) p"
  by (simp add: add_proposal_substructures_def)

lemma map_butlast_last:
  assumes "xs \<noteq> []"
  shows "map f xs = map f (butlast xs) @ [f (last xs)]"
proof -
  from assms have "xs = butlast xs @ [last xs]" by simp
  then have "map f xs = map f (butlast xs @ [last xs])" by (rule arg_cong)
  then show ?thesis by simp
qed

lemma proposals_add_proposal_substructures:
  "proposals this = [] \<Longrightarrow>
   proposals (add_proposal_substructures plength this ps) =
     (if ps = [] then []
      else map (\<lambda>p. set_is_last_proposal p False) (butlast ps) @
           [set_is_last_proposal (last ps) True])"
proof (induction ps rule: rev_induct)
  case Nil
  then show ?case by (simp add: add_proposal_substructures_def)
next
  case (snoc p ps)
  show ?case
  proof (cases "ps = []")
    case True
    with snoc.prems show ?thesis
      by (simp add: add_proposal_substructures_def proposals_add_proposal_substructure)
  next
    case False
    with snoc have eq: "proposals (add_proposal_substructures plength this ps) =
        map (\<lambda>p. set_is_last_proposal p False) (butlast ps) @
        [set_is_last_proposal (last ps) True]"
      by simp
    from False have "map (\<lambda>p. set_is_last_proposal p False) ps =
        map (\<lambda>p. set_is_last_proposal p False) (butlast ps) @
        [set_is_last_proposal (last ps) False]"
      by (rule map_butlast_last)
    then show ?thesis
      by (simp add: add_proposal_substructures_snoc proposals_add_proposal_substructure eq)
  qed
qed

text \<open>
  C7: after one or more \<^verbatim>\<open>add_proposal_substructure\<close> calls on a payload from
  \<^verbatim>\<open>sa_payload_create\<close>, the payload holds as many proposals as were added, exactly
  one of them has its last-proposal flag set, and it is the last of the sequence,
  which is the proposal added last.
\<close>

theorem add_proposal_substructure_last_flag:
  assumes "ps \<noteq> []"
  shows "length (proposals (add_proposal_substructures plength sa_payload_create ps)) = length ps \<and>
         length (filter get_is_last_proposal
                   (proposals (add_proposal_substructures plength sa_payload_create ps))) = 1 \<and>
         get_is_last_proposal
           (last (proposals (add_proposal_substructures plength sa_payload_create ps))) \<and>
         last (proposals (add_proposal_substructures plength sa_payload_create ps)) =
           set_is_last_proposal (last ps) True \<and>
         list_all (\<lambda>q. \<not> get_is_last_proposal q)
           (butlast (proposals (add_proposal_substructures plength sa_payload_create ps)))"
proof -
  have "proposals sa_payload_create = []"
    by (simp add: sa_payload_create_def)
  from proposals_add_proposal_substructures [OF this, of plength ps] assms
  have eq: "proposals (add_proposal_substructures plength sa_payload_create ps) =
            map (\<lambda>p. set_is_last_proposal p False) (butlast ps) @
            [set_is_last_proposal (last ps) True]"
    by simp
  show ?thesis
    using assms by (simp add: eq list_all_iff filter_empty_conv o_def)
qed

theorem add_proposal_substructure_last_flag_witness:
  "[example_ike_proposal, example_three_transforms] \<noteq> [] \<and>
   length (proposals (add_proposal_substructures example_length sa_payload_create
                        [example_ike_proposal, example_three_transforms])) = 2 \<and>
   length (filter get_is_last_proposal
             (proposals (add_proposal_substructures example_length sa_payload_create
                           [example_ike_proposal, example_three_transforms]))) = 1 \<and>
   get_is_last_proposal
     (last (proposals (add_proposal_substructures example_length sa_payload_create
                         [example_ike_proposal, example_three_transforms]))) \<and>
   last (proposals (add_proposal_substructures example_length sa_payload_create
                      [example_ike_proposal, example_three_transforms])) =
     set_is_last_proposal example_three_transforms True \<and>
   list_all (\<lambda>q. \<not> get_is_last_proposal q)
     (butlast (proposals (add_proposal_substructures example_length sa_payload_create
                            [example_ike_proposal, example_three_transforms])))"
proof -
  have ne: "[example_ike_proposal, example_three_transforms] \<noteq> []"
    by simp
  from add_proposal_substructure_last_flag [OF ne, of example_length] show ?thesis
    by simp
qed

lemma sum_list_add_proposal_substructure:
  assumes "\<And>q b. plength (set_is_last_proposal q b) = plength q"
  shows "sum_list (map plength (proposals (add_proposal_substructure plength this p))) =
         sum_list (map plength (proposals this)) + plength p"
proof (cases "proposals this = []")
  case True
  then show ?thesis by (simp add: proposals_add_proposal_substructure assms)
next
  case False
  from map_butlast_last [OF False, of plength]
  have "sum_list (map plength (proposals this)) =
        sum_list (map plength (butlast (proposals this)) @ [plength (last (proposals this))])"
    by (rule arg_cong)
  with False show ?thesis
    by (simp add: proposals_add_proposal_substructure assms)
qed

lemma sum_list_add_proposal_substructures:
  assumes "\<And>q b. plength (set_is_last_proposal q b) = plength q"
  shows "sum_list (map plength (proposals (add_proposal_substructures plength sa_payload_create ps))) =
         sum_list (map plength ps)"
proof (cases "ps = []")
  case True
  then show ?thesis
    by (simp add: add_proposal_substructures_def sa_payload_create_def)
next
  case False
  have "proposals sa_payload_create = []"
    by (simp add: sa_payload_create_def)
  from proposals_add_proposal_substructures [OF this, of plength ps] False
  have eq: "proposals (add_proposal_substructures plength sa_payload_create ps) =
            map (\<lambda>p. set_is_last_proposal p False) (butlast ps) @
            [set_is_last_proposal (last ps) True]"
    by simp
  from map_butlast_last [OF False, of plength]
  have "sum_list (map plength ps) = sum_list (map plength (butlast ps) @ [plength (last ps)])"
    by (rule arg_cong)
  then show ?thesis
    by (simp add: eq assms o_def)
qed

lemma example_length_flag:
  "example_length (set_is_last_proposal q b) = example_length q"
  by (simp add: example_length_def set_is_last_proposal_def)

lemma example_length_ike_proposal: "example_length example_ike_proposal = 52"
  by code_simp

text \<open>
  C6, as the claim states it, fails: the payload length is a 16-bit field, so the
  value \<^verbatim>\<open>get_length\<close> returns is the sum reduced modulo 65536. With 1261 proposals
  of 52 bytes each the sum is 65576 and \<^verbatim>\<open>get_length\<close> returns 40.
\<close>

theorem get_length_wraps:
  "fst (get_length example_length
          (add_proposal_substructures example_length sa_payload_create
             (replicate 1261 example_ike_proposal))) = 40 \<and>
   SA_PAYLOAD_HEADER_LENGTH +
     sum_list (map example_length
       (proposals (add_proposal_substructures example_length sa_payload_create
                     (replicate 1261 example_ike_proposal)))) = 65576"
proof -
  have s: "sum_list (map example_length
             (proposals (add_proposal_substructures example_length sa_payload_create
                           (replicate 1261 example_ike_proposal)))) = 65572"
    by (simp add: sum_list_add_proposal_substructures [OF example_length_flag]
        sum_list_replicate example_length_ike_proposal)
  show ?thesis
    by (simp add: get_length_value s SA_PAYLOAD_HEADER_LENGTH_def)
qed

text \<open>
  C6, amended: \<^verbatim>\<open>get_length\<close> returns the header length plus the sum of the
  proposals' encoded lengths, reduced modulo 65536, hence exactly that sum whenever
  it is below 65536; a second call returns the same value; and, when a proposal's
  encoded length does not depend on its last-proposal flag and the new sum is still
  below 65536, \<^verbatim>\<open>add_proposal_substructure\<close> increases the value by exactly the
  encoded length of the added proposal.
\<close>

theorem get_length_computed:
  "fst (get_length plength this) =
     (SA_PAYLOAD_HEADER_LENGTH + sum_list (map plength (proposals this))) mod 65536 \<and>
   (SA_PAYLOAD_HEADER_LENGTH + sum_list (map plength (proposals this)) < 65536 \<longrightarrow>
      fst (get_length plength this) =
        SA_PAYLOAD_HEADER_LENGTH + sum_list (map plength (proposals this))) \<and>
   fst (get_length plength (snd (get_length plength this))) = fst (get_length plength this) \<and>
   ((\<forall>q b. plength (set_is_last_proposal q b) = plength q) \<and>
    SA_PAYLOAD_HEADER_LENGTH + sum_list (map plength (proposals this)) + plength p < 65536 \<longrightarrow>
      fst (get_length plength (add_proposal_substructure plength this p)) =
        fst (get_length plength this) + plength p)"
proof (intro conjI impI)
  show "fst (get_length plength this) =
     (SA_PAYLOAD_HEADER_LENGTH + sum_list (map plength (proposals this))) mod 65536"
    by (rule get_length_value)
next
  assume "SA_PAYLOAD_HEADER_LENGTH + sum_list (map plength (proposals this)) < 65536"
  then show "fst (get_length plength this) =
        SA_PAYLOAD_HEADER_LENGTH + sum_list (map plength (proposals this))"
    by (simp add: get_length_value)
next
  show "fst (get_length plength (snd (get_length plength this))) = fst (get_length plength this)"
    by (simp add: get_length_value)
next
  assume a: "(\<forall>q b. plength (set_is_last_proposal q b) = plength q) \<and>
    SA_PAYLOAD_HEADER_LENGTH + sum_list (map plength (proposals this)) + plength p < 65536"
  then have s: "sum_list (map plength (proposals (add_proposal_substructure plength this p))) =
         sum_list (map plength (proposals this)) + plength p"
    by (simp add: sum_list_add_proposal_substructure)
  from a show "fst (get_length plength (add_proposal_substructure plength this p)) =
        fst (get_length plength this) + plength p"
    by (simp add: get_length_value s)
qed

theorem get_length_computed_witness:
  "fst (get_length example_length
          (add_proposal_substructures example_length sa_payload_create [example_ike_proposal])) = 56 \<and>
   fst (get_length example_length
          (snd (get_length example_length
                  (add_proposal_substructures example_length sa_payload_create
                     [example_ike_proposal])))) = 56 \<and>
   (\<forall>q b. example_length (set_is_last_proposal q b) = example_length q) \<and>
   example_length example_no_key_length = 48 \<and>
   fst (get_length example_length
          (add_proposal_substructure example_length
             (add_proposal_substructures example_length sa_payload_create [example_ike_proposal])
             example_no_key_length)) = 104"
proof -
  have s: "SA_PAYLOAD_HEADER_LENGTH +
           sum_list (map example_length
             (proposals (add_proposal_substructures example_length sa_payload_create
                           [example_ike_proposal]))) = 56"
    by code_simp
  have l: "example_length example_no_key_length = 48"
    by code_simp
  have f: "\<forall>q b. example_length (set_is_last_proposal q b) = example_length q"
    by (simp add: example_length_flag)
  from get_length_computed
         [of example_length
             "add_proposal_substructures example_length sa_payload_create [example_ike_proposal]"
             example_no_key_length]
  show ?thesis
    unfolding s l using f by simp
qed

subsection \<open>sa\_payload\_create\_from\_ike\_proposals\<close>

text \<open>
  Setting every last-proposal flag makes the list after a run of additions
  independent of the flags the additions rewrite; the other fields of the stored
  proposals follow from it.
\<close>

lemma set_last_True_add_proposal_substructure:
  "map (\<lambda>q. set_is_last_proposal q True) (proposals (add_proposal_substructure plength this p)) =
   map (\<lambda>q. set_is_last_proposal q True) (proposals this) @ [set_is_last_proposal p True]"
proof (cases "proposals this = []")
  case True
  then show ?thesis by (simp add: proposals_add_proposal_substructure)
next
  case False
  from map_butlast_last [OF False, of "\<lambda>q. set_is_last_proposal q True"]
  show ?thesis using False by (simp add: proposals_add_proposal_substructure)
qed

lemma set_last_True_create_loop:
  "map (\<lambda>q. set_is_last_proposal q True)
     (proposals (create_from_ike_proposals_loop plength rs i sa)) =
   map (\<lambda>q. set_is_last_proposal q True) (proposals sa) @
   map (\<lambda>(j, r). set_is_last_proposal (create_proposal_substructure j r) True) (enumerate i rs)"
  by (induction rs arbitrary: i sa) (simp_all add: set_last_True_add_proposal_substructure)

lemma header_add_proposal_substructure:
  "next_payload (add_proposal_substructure plength this p) = next_payload this \<and>
   critical (add_proposal_substructure plength this p) = critical this"
  by (simp add: add_proposal_substructure_def compute_length_def Let_def)

lemma header_create_loop:
  "next_payload (create_from_ike_proposals_loop plength rs i sa) = next_payload sa \<and>
   critical (create_from_ike_proposals_loop plength rs i sa) = critical sa"
  by (induction rs arbitrary: i sa) (simp_all add: header_add_proposal_substructure)

lemma created_length:
  "length (proposals (sa_payload_create_from_ike_proposals plength records)) = length records"
proof -
  have "length (map (\<lambda>q. set_is_last_proposal q True)
                 (proposals (sa_payload_create_from_ike_proposals plength records))) =
        length records"
    unfolding sa_payload_create_from_ike_proposals_def set_last_True_create_loop
    by (simp add: sa_payload_create_def)
  then show ?thesis by simp
qed

lemma created_nth:
  assumes "i < length records"
  shows "set_is_last_proposal
           (proposals (sa_payload_create_from_ike_proposals plength records) ! i) True =
         set_is_last_proposal (create_proposal_substructure i (records ! i)) True"
proof -
  have "map (\<lambda>q. set_is_last_proposal q True)
          (proposals (sa_payload_create_from_ike_proposals plength records)) ! i =
        set_is_last_proposal (create_proposal_substructure i (records ! i)) True"
    unfolding sa_payload_create_from_ike_proposals_def set_last_True_create_loop
    using assms by (simp add: sa_payload_create_def nth_enumerate_eq)
  with assms show ?thesis by (simp add: created_length)
qed

lemma created_fields:
  assumes "i < length records"
  shows "p_number (proposals (sa_payload_create_from_ike_proposals plength records) ! i) =
           p_number (create_proposal_substructure i (records ! i))"
    and "p_protocol_id (proposals (sa_payload_create_from_ike_proposals plength records) ! i) =
           p_protocol_id (create_proposal_substructure i (records ! i))"
    and "p_spi (proposals (sa_payload_create_from_ike_proposals plength records) ! i) =
           p_spi (create_proposal_substructure i (records ! i))"
    and "p_transforms (proposals (sa_payload_create_from_ike_proposals plength records) ! i) =
           p_transforms (create_proposal_substructure i (records ! i))"
proof -
  let ?p = "proposals (sa_payload_create_from_ike_proposals plength records) ! i"
  let ?q = "create_proposal_substructure i (records ! i)"
  have eq: "?p\<lparr>p_is_last_proposal := True\<rparr> = ?q\<lparr>p_is_last_proposal := True\<rparr>"
    using created_nth [OF assms, of plength] by (simp add: set_is_last_proposal_def)
  from arg_cong [OF eq, of p_number] show "p_number ?p = p_number ?q" by simp
  from arg_cong [OF eq, of p_protocol_id] show "p_protocol_id ?p = p_protocol_id ?q" by simp
  from arg_cong [OF eq, of p_spi] show "p_spi ?p = p_spi ?q" by simp
  from arg_cong [OF eq, of p_transforms] show "p_transforms ?p = p_transforms ?q" by simp
qed

lemma create_proposal_substructure_fields:
  "p_number (create_proposal_substructure i r) = int i + 1"
  "p_protocol_id (create_proposal_substructure i r) = IKE"
  "p_spi (create_proposal_substructure i r) = []"
  "p_transforms (create_proposal_substructure i r) =
     [\<lparr> transform_type = ENCRYPTION_ALGORITHM, transform_id = encryption_algorithm r,
        key_length = Some (encryption_algorithm_key_length r), is_last_transform = False \<rparr>,
      \<lparr> transform_type = PSEUDO_RANDOM_FUNCTION, transform_id = pseudo_random_function r,
        key_length = Some (pseudo_random_function_key_length r), is_last_transform = False \<rparr>,
      \<lparr> transform_type = INTEGRITY_ALGORITHM, transform_id = integrity_algorithm r,
        key_length = Some (integrity_algorithm_key_length r), is_last_transform = False \<rparr>,
      \<lparr> transform_type = DIFFIE_HELLMAN_GROUP, transform_id = diffie_hellman_group r,
        key_length = None, is_last_transform = True \<rparr>]"
  by (simp_all add: create_proposal_substructure_def proposal_substructure_create_def
      set_protocol_id_def set_proposal_number_def add_transform_substructure_def
      transform_substructure_create_type_def set_is_last_transform_def)

text \<open>
  C8: \<^verbatim>\<open>sa_payload_create_from_ike_proposals\<close> returns a payload with one proposal
  per record, in the order of the records, with the next-payload type and the
  critical flag of a fresh payload. The proposal at position \<open>i\<close> (from 0) has
  protocol id IKE, number \<open>i + 1\<close> and exactly 4 transforms, of the types
  encryption, pseudo-random function, integrity, Diffie-Hellman group in this
  order, with the ids of the record at position \<open>i\<close> and, for the first three, its
  key lengths.
\<close>

theorem create_from_ike_proposals_builds:
  "length (proposals (sa_payload_create_from_ike_proposals plength records)) = length records \<and>
   (\<forall>i < length records.
      get_protocol_id (proposals (sa_payload_create_from_ike_proposals plength records) ! i) = IKE \<and>
      get_proposal_number (proposals (sa_payload_create_from_ike_proposals plength records) ! i) =
        int i + 1 \<and>
      get_transform_count (proposals (sa_payload_create_from_ike_proposals plength records) ! i) = 4 \<and>
      map get_transform_type
        (create_transform_substructure_iterator
           (proposals (sa_payload_create_from_ike_proposals plength records) ! i)) =
        [ENCRYPTION_ALGORITHM, PSEUDO_RANDOM_FUNCTION, INTEGRITY_ALGORITHM, DIFFIE_HELLMAN_GROUP] \<and>
      map get_transform_id
        (create_transform_substructure_iterator
           (proposals (sa_payload_create_from_ike_proposals plength records) ! i)) =
        [encryption_algorithm (records ! i), pseudo_random_function (records ! i),
         integrity_algorithm (records ! i), diffie_hellman_group (records ! i)] \<and>
      map key_length
        (take 3 (create_transform_substructure_iterator
           (proposals (sa_payload_create_from_ike_proposals plength records) ! i))) =
        [Some (encryption_algorithm_key_length (records ! i)),
         Some (pseudo_random_function_key_length (records ! i)),
         Some (integrity_algorithm_key_length (records ! i))]) \<and>
   get_next_type (sa_payload_create_from_ike_proposals plength records) =
     get_next_type sa_payload_create \<and>
   critical (sa_payload_create_from_ike_proposals plength records) = critical sa_payload_create"
proof (intro conjI allI impI)
  show "length (proposals (sa_payload_create_from_ike_proposals plength records)) = length records"
    by (rule created_length)
next
  show "get_next_type (sa_payload_create_from_ike_proposals plength records) =
        get_next_type sa_payload_create"
    by (simp add: get_next_type_def sa_payload_create_from_ike_proposals_def header_create_loop)
next
  show "critical (sa_payload_create_from_ike_proposals plength records) =
        critical sa_payload_create"
    by (simp add: sa_payload_create_from_ike_proposals_def header_create_loop)
next
  fix i assume i: "i < length records"
  note f = created_fields [OF i, of plength] create_proposal_substructure_fields
  show "get_protocol_id (proposals (sa_payload_create_from_ike_proposals plength records) ! i) = IKE"
    by (simp add: get_protocol_id_def f)
  show "get_proposal_number (proposals (sa_payload_create_from_ike_proposals plength records) ! i) =
        int i + 1"
    by (simp add: get_proposal_number_def f)
  show "get_transform_count (proposals (sa_payload_create_from_ike_proposals plength records) ! i) = 4"
    by (simp add: get_transform_count_def f)
  show "map get_transform_type
        (create_transform_substructure_iterator
           (proposals (sa_payload_create_from_ike_proposals plength records) ! i)) =
        [ENCRYPTION_ALGORITHM, PSEUDO_RANDOM_FUNCTION, INTEGRITY_ALGORITHM, DIFFIE_HELLMAN_GROUP]"
    by (simp add: create_transform_substructure_iterator_def get_transform_type_def f)
  show "map get_transform_id
        (create_transform_substructure_iterator
           (proposals (sa_payload_create_from_ike_proposals plength records) ! i)) =
        [encryption_algorithm (records ! i), pseudo_random_function (records ! i),
         integrity_algorithm (records ! i), diffie_hellman_group (records ! i)]"
    by (simp add: create_transform_substructure_iterator_def get_transform_id_def f)
  show "map key_length
        (take 3 (create_transform_substructure_iterator
           (proposals (sa_payload_create_from_ike_proposals plength records) ! i))) =
        [Some (encryption_algorithm_key_length (records ! i)),
         Some (pseudo_random_function_key_length (records ! i)),
         Some (integrity_algorithm_key_length (records ! i))]"
    by (simp add: create_transform_substructure_iterator_def f)
qed

theorem create_from_ike_proposals_builds_witness:
  "length (proposals (sa_payload_create_from_ike_proposals example_length
                        [example_record, example_record2])) = 2 \<and>
   get_protocol_id (proposals (sa_payload_create_from_ike_proposals example_length
                                 [example_record, example_record2]) ! 1) = IKE \<and>
   get_proposal_number (proposals (sa_payload_create_from_ike_proposals example_length
                                     [example_record, example_record2]) ! 1) = 2 \<and>
   get_transform_count (proposals (sa_payload_create_from_ike_proposals example_length
                                     [example_record, example_record2]) ! 1) = 4 \<and>
   map get_transform_type
     (create_transform_substructure_iterator
        (proposals (sa_payload_create_from_ike_proposals example_length
                      [example_record, example_record2]) ! 1)) =
     [ENCRYPTION_ALGORITHM, PSEUDO_RANDOM_FUNCTION, INTEGRITY_ALGORITHM, DIFFIE_HELLMAN_GROUP] \<and>
   map get_transform_id
     (create_transform_substructure_iterator
        (proposals (sa_payload_create_from_ike_proposals example_length
                      [example_record, example_record2]) ! 1)) = [3, 1, 1, 2]"
proof -
  have i: "1 < length [example_record, example_record2]"
    by simp
  from create_from_ike_proposals_builds
         [of example_length "[example_record, example_record2]",
          THEN conjunct2, THEN conjunct1, rule_format, OF i]
       create_from_ike_proposals_builds
         [of example_length "[example_record, example_record2]", THEN conjunct1]
  show ?thesis
    by (simp add: example_record2_def)
qed

subsection \<open>From records to a payload and back\<close>

lemma get_ike_proposals_count_all_ike:
  "list_all (\<lambda>p. get_protocol_id p = IKE \<and> get_transform_count p = 4 \<and> get_spi_size p = 0) ps \<Longrightarrow>
   get_ike_proposals_count ps n = Some (n + length ps)"
  by (induction ps arbitrary: n) simp_all

lemma get_ike_proposals_fill_all:
  assumes "list_all2 (\<lambda>p r. get_protocol_id p = IKE \<and>
             (\<forall>slot. get_ike_proposals_transforms (create_transform_substructure_iterator p) slot =
                (r, \<lparr> encryption_algorithm_found = True, integrity_algorithm_found = True,
                      pseudo_random_function_found = True, diffie_hellman_group_found = True \<rparr>)))
           ps rs"
    and "k + length rs \<le> length tmp"
  shows "get_ike_proposals_fill ps k tmp = Some (take k tmp @ rs @ drop (k + length rs) tmp)"
  using assms
proof (induction ps rs arbitrary: k tmp rule: list_all2_induct)
  case Nil
  then show ?case by simp
next
  case (Cons p ps r rs)
  from Cons.prems have k: "k < length tmp" and le: "Suc k + length rs \<le> length (tmp[k := r])"
    by simp_all
  have t: "take (Suc k) (tmp[k := r]) = take k tmp @ [r]"
    using k by (simp add: take_Suc_conv_app_nth)
  have d: "drop (Suc k + length rs) (tmp[k := r]) = drop (Suc k + length rs) tmp"
    by simp
  from Cons.hyps(1) have "get_ike_proposals_fill (p # ps) k tmp =
                          get_ike_proposals_fill ps (Suc k) (tmp[k := r])"
    by (simp add: all_found_def)
  also have "\<dots> = Some (take (Suc k) (tmp[k := r]) @ rs @ drop (Suc k + length rs) (tmp[k := r]))"
    by (rule Cons.IH [OF le])
  finally show ?case
    by (simp add: t d)
qed

lemma created_transforms_scan:
  "get_ike_proposals_transforms (p_transforms (create_proposal_substructure i r)) slot =
     (r, \<lparr> encryption_algorithm_found = True, integrity_algorithm_found = True,
           pseudo_random_function_found = True, diffie_hellman_group_found = True \<rparr>)"
  by (simp add: create_proposal_substructure_fields get_ike_proposals_transforms_def
      get_ike_proposals_transform_def get_transform_type_def get_transform_id_def
      get_key_length_def no_flags_def)

text \<open>
  C2, as the claim states it, fails for the empty array: the payload built from no
  record has no IKE proposal, and \<^verbatim>\<open>get_ike_proposals\<close> returns NOT\_FOUND and
  leaves the output parameters as they were.
\<close>

theorem ike_proposals_round_trip_empty:
  "get_ike_proposals example_alloc (sa_payload_create_from_ike_proposals example_length [])
     ([example_record], 1) = (NOT_FOUND, ([example_record], 1))"
  by code_simp

text \<open>
  C2, amended: for a non-empty array of records, \<^verbatim>\<open>get_ike_proposals\<close> on the
  payload that \<^verbatim>\<open>sa_payload_create_from_ike_proposals\<close> builds returns SUCCESS, the
  array of the same records in the same order, and their count; for the empty
  array it returns NOT\_FOUND and writes nothing.
\<close>

theorem ike_proposals_round_trip:
  "get_ike_proposals alloc (sa_payload_create_from_ike_proposals plength records) out =
     (if records = [] then (NOT_FOUND, out) else (SUCCESS, (records, length records)))"
proof -
  let ?ps = "proposals (sa_payload_create_from_ike_proposals plength records)"
  have len: "length ?ps = length records"
    by (rule created_length)
  have "list_all (\<lambda>p. get_protocol_id p = IKE \<and> get_transform_count p = 4 \<and> get_spi_size p = 0) ?ps"
    unfolding list_all_length len
    by (simp add: get_protocol_id_def get_transform_count_def get_spi_size_def created_fields
        create_proposal_substructure_fields)
  then have cnt: "get_ike_proposals_count ?ps 0 = Some (length records)"
    by (simp add: get_ike_proposals_count_all_ike len)
  have "list_all2 (\<lambda>p r. get_protocol_id p = IKE \<and>
             (\<forall>slot. get_ike_proposals_transforms (create_transform_substructure_iterator p) slot =
                (r, \<lparr> encryption_algorithm_found = True, integrity_algorithm_found = True,
                      pseudo_random_function_found = True, diffie_hellman_group_found = True \<rparr>)))
           ?ps records"
    unfolding list_all2_conv_all_nth len
    by (simp add: get_protocol_id_def create_transform_substructure_iterator_def created_fields
        created_transforms_scan create_proposal_substructure_fields(2))
  from get_ike_proposals_fill_all [OF this, of 0 "map alloc [0..<length records]"]
  have fill: "get_ike_proposals_fill ?ps 0 (map alloc [0..<length records]) = Some records"
    by simp
  show ?thesis
    by (simp add: get_ike_proposals_def cnt fill)
qed

theorem ike_proposals_round_trip_witness:
  "get_ike_proposals example_alloc
     (sa_payload_create_from_ike_proposals example_length [example_record, example_record2])
     ([], 0) = (SUCCESS, ([example_record, example_record2], 2))"
  using ike_proposals_round_trip
          [of example_alloc example_length "[example_record, example_record2]" "([], 0)"]
  by simp

end
